theory Spec2Isabelle
  imports Main
begin

section \<open>Errors and results\<close>

text \<open>
  A JavaScript exception is a value: \<open>Error msg\<close> is \<open>new Error(msg)\<close>,
  \<open>ReferenceError msg\<close> is the engine's error on reading an identifier that no scope
  declares, \<open>ValidationError msg\<close> is what a field validator of the model raises, and
  \<open>DatabaseError\<close> is a statement the store rejects.  A method returns the thrown error
  or its value (\<open>Inl\<close> the error) together with the state it leaves behind, because
  the methods assign to \<open>this\<close> before they throw.  The last three are names of the
  specification's taxonomy, raised only by the checkout modelled from it.
\<close>

datatype error =
    Error string
  | ReferenceError string
  | ValidationError string
  | DatabaseError
  | EmptyCartError
  | InsufficientStockError
  | NotFoundError

section \<open>Pedido (src/backend/models/Pedido.js)\<close>

text \<open>
  The fields of the model that the methods read or write.  \<open>estado_changed\<close> is the
  instance's \<open>changed('estado')\<close>: set by an assignment of a different value, cleared
  by a save.  Dates are points on a clock of naturals; \<open>None\<close> is NULL.
\<close>

record pedido =
  pedido_id :: nat
  pedido_usuarioId :: nat
  pedido_total :: int
  estado :: string
  estado_changed :: bool
  direccionEnvio :: string
  telefono :: string
  notas :: "string option"
  fechaPago :: "nat option"
  fechaEnvio :: "nat option"
  fechaEntrega :: "nat option"

text \<open>The list of the ENUM, of the \<open>isIn\<close> validator and of \<open>cambiarEstado\<close>.\<close>

definition estadosValidos :: "string list" where
  "estadosValidos = [''pendiente'', ''pagado'', ''enviado'', ''cancelado'']"

text \<open>\<open>this.estado = v\<close>: the setter marks the field changed when the value differs.\<close>

definition set_estado :: "pedido \<Rightarrow> string \<Rightarrow> pedido" where
  "set_estado p v = (if v \<noteq> estado p then p\<lparr>estado := v, estado_changed := True\<rparr> else p)"

text \<open>\<open>save({hooks: false})\<close>: the row is written and the changed marks are cleared.\<close>

definition pedido_save_sin_hooks :: "pedido \<Rightarrow> pedido" where
  "pedido_save_sin_hooks p = p\<lparr>estado_changed := False\<rparr>"

text \<open>The condition of the third branch of the \<open>beforeUpdate\<close> hook.\<close>

definition rama_entregado :: "pedido \<Rightarrow> bool" where
  "rama_entregado p = (estado_changed p \<and> estado p = ''entregado'')"

text \<open>The \<open>beforeUpdate\<close> hook: three consecutive \<open>if\<close>s, \<open>now\<close> is \<open>new Date()\<close>.\<close>

definition pedido_beforeUpdate :: "nat \<Rightarrow> pedido \<Rightarrow> pedido" where
  "pedido_beforeUpdate now p =
     (let p1 = (if estado_changed p \<and> estado p = ''pagado''
                then pedido_save_sin_hooks (p\<lparr>fechaPago := Some now\<rparr>) else p);
          p2 = (if estado_changed p1 \<and> estado p1 = ''enviado''
                then pedido_save_sin_hooks (p1\<lparr>fechaEnvio := Some now\<rparr>) else p1);
          p3 = (if rama_entregado p2
                then pedido_save_sin_hooks (p2\<lparr>fechaEntrega := Some now\<rparr>) else p2)
      in p3)"

text \<open>
  \<open>this.save()\<close> of a stored order: the changed fields are validated (\<open>isIn\<close> on
  \<open>estado\<close>), the hook runs, the row is written.  The stored row of an order is the
  instance as last saved.
\<close>

definition pedido_save :: "nat \<Rightarrow> pedido \<Rightarrow> (error + unit) \<times> pedido" where
  "pedido_save now p =
     (if estado_changed p \<and> estado p \<notin> set estadosValidos
      then (Inl (ValidationError ''El estado debe ser pendiente, pagado, enviado o cancelado''), p)
      else (Inr (), pedido_save_sin_hooks (pedido_beforeUpdate now p)))"

text \<open>\<open>Pedido.prototype.cambiarEstado\<close>.\<close>

definition cambiarEstado :: "nat \<Rightarrow> pedido \<Rightarrow> string \<Rightarrow> (error + unit) \<times> pedido" where
  "cambiarEstado now p nuevoEstado =
     (if nuevoEstado \<notin> set estadosValidos
      then (Inl (Error ''Estado no valido, debe ser pendiente, pagado, enviado o cancelado''), p)
      else pedido_save now (set_estado p nuevoEstado))"

text \<open>\<open>Pedido.prototype.puedeSerCancelado\<close>.\<close>

definition puedeSerCancelado :: "pedido \<Rightarrow> bool" where
  "puedeSerCancelado p = (estado p \<in> set [''pendiente'', ''pagado''])"

section \<open>Producto (src/unnamed/part_001)\<close>

text \<open>
  \<open>precio\<close> is DECIMAL(10,2), kept in hundredths; \<open>stock\<close> is the INTEGER column
  and the JavaScript number the methods add to and subtract from; \<open>imagen\<close> is the
  nullable file name.
\<close>

record producto =
  prod_id :: nat
  prod_nombre :: string
  precio :: int
  stock :: int
  imagen :: "string option"
  prod_subcategoriaId :: nat
  prod_categoriaId :: nat
  prod_activo :: bool

text \<open>
  The DetallePedido model is required by \<open>cancelar\<close> and is not among the sources:
  the fields are the ones \<open>cancelar\<close> reads, and the unit price of the snapshot.
\<close>

record detallePedido =
  det_pedidoId :: nat
  det_productoId :: nat
  det_cantidad :: int
  det_precioUnitario :: int

text \<open>The cart line of the Carrito model (second and third document of Pedido.js).\<close>

record carrito =
  car_id :: nat
  car_usuarioId :: nat
  car_productoId :: nat
  car_cantidad :: int
  precioUnitario :: int

record categoria =
  cat_id :: nat
  cat_nombre :: string
  cat_activo :: bool

record subcategoria =
  sub_id :: nat
  sub_categoriaId :: nat
  sub_nombre :: string
  sub_activo :: bool

text \<open>The tables of the store, each a list of rows in the order a \<open>findAll\<close> returns them.\<close>

record db =
  categorias :: "categoria list"
  subcategorias :: "subcategoria list"
  productos :: "producto list"
  carritos :: "carrito list"
  pedidos :: "pedido list"
  detalles :: "detallePedido list"

text \<open>
  The values a condition of the product methods may test: a boolean, or the promise an
  async call returns, carrying the outcome it settles with.  A promise is an object, and
  every object is truthy.
\<close>

datatype jsval = JBool bool | JPromise "error + unit"

fun truthy :: "jsval \<Rightarrow> bool" where
  "truthy (JBool b) = b"
| "truthy (JPromise r) = True"

text \<open>\<open>Producto.findByPk\<close>.\<close>

definition producto_findByPk :: "db \<Rightarrow> nat \<Rightarrow> producto option" where
  "producto_findByPk d k = find (\<lambda>r. prod_id r = k) (productos d)"

text \<open>
  \<open>this.save()\<close> of a product after an assignment to \<open>stock\<close>.  Nothing is validated
  or written when the value did not change; otherwise the \<open>min: 0\<close> validator runs and
  the row with the instance's id receives the new stock.
\<close>

definition producto_save :: "db \<Rightarrow> bool \<Rightarrow> producto \<Rightarrow> (error + unit) \<times> db" where
  "producto_save d stock_changed p =
     (if \<not> stock_changed then (Inr (), d)
      else if stock p < 0 then (Inl (ValidationError ''El stock no puede ser negativo''), d)
      else (Inr (),
            d\<lparr>productos :=
                 map (\<lambda>r. if prod_id r = prod_id p then r\<lparr>stock := stock p\<rparr> else r)
                   (productos d)\<rparr>))"

text \<open>
  \<open>Producto.prototype.hayStock\<close>: \<open>this.stock += cantidad; return this.save();\<close>.
  The method is not async and does not await: it returns the promise of the save.  The
  write of that save is applied to the store here, at the call; a rejection stays inside
  the promise.
\<close>

definition hayStock :: "db \<Rightarrow> producto \<Rightarrow> int \<Rightarrow> jsval \<times> producto \<times> db" where
  "hayStock d p cantidad =
     (let p1 = p\<lparr>stock := stock p + cantidad\<rparr>
      in case producto_save d (stock p1 \<noteq> stock p) p1 of
           (r, d1) \<Rightarrow> (JPromise r, p1, d1))"

text \<open>
  \<open>Producto.prototype.aumentarStock\<close>:
  \<open>if (this.hayStock(cantidad)) throw new Error('Stock insuficiente');
     this.stock -= cantidad; return await this.save();\<close>
\<close>

definition aumentarStock :: "db \<Rightarrow> producto \<Rightarrow> int \<Rightarrow> (error + unit) \<times> producto \<times> db" where
  "aumentarStock d p cantidad =
     (case hayStock d p cantidad of
        (v, p1, d1) \<Rightarrow>
          if truthy v then (Inl (Error ''Stock insuficiente''), p1, d1)
          else (let p2 = p1\<lparr>stock := stock p1 - cantidad\<rparr>
                in case producto_save d1 (stock p2 \<noteq> stock p1) p2 of
                     (r, d2) \<Rightarrow> (r, p2, d2)))"

section \<open>Cancelling an order (Pedido.prototype.cancelar)\<close>

text \<open>The loop that returns the stock: a missing product is skipped, an error leaves the loop.\<close>

fun devolver_stock :: "db \<Rightarrow> detallePedido list \<Rightarrow> (error + unit) \<times> db" where
  "devolver_stock d [] = (Inr (), d)"
| "devolver_stock d (detalle # resto) =
     (case producto_findByPk d (det_productoId detalle) of
        None \<Rightarrow> devolver_stock d resto
      | Some producto \<Rightarrow>
          (case aumentarStock d producto (det_cantidad detalle) of
             (Inl e, p1, d1) \<Rightarrow> (Inl e, d1)
           | (Inr u, p1, d1) \<Rightarrow> devolver_stock d1 resto))"

definition cancelar :: "nat \<Rightarrow> db \<Rightarrow> pedido \<Rightarrow> (error + unit) \<times> pedido \<times> db" where
  "cancelar now d p =
     (if \<not> puedeSerCancelado p
      then (Inl (Error ''No se puede cancelar este pedido''), p, d)
      else case devolver_stock d (filter (\<lambda>x. det_pedidoId x = pedido_id p) (detalles d)) of
             (Inl e, d1) \<Rightarrow> (Inl e, p, d1)
           | (Inr u, d1) \<Rightarrow>
               (case pedido_save now (set_estado p ''cancelado'') of
                  (r, p1) \<Rightarrow> (r, p1, d1)))"

text \<open>The operations that act on an order, and a run of them on one order and the store.\<close>

datatype operacion = CambiarEstado string | Cancelar

fun ejecutar :: "nat \<Rightarrow> operacion \<Rightarrow> pedido \<times> db \<Rightarrow> pedido \<times> db" where
  "ejecutar now (CambiarEstado s) (p, d) = (snd (cambiarEstado now p s), d)"
| "ejecutar now Cancelar (p, d) = snd (cancelar now d p)"

fun ejecutar_todas :: "nat \<Rightarrow> operacion list \<Rightarrow> pedido \<times> db \<Rightarrow> pedido \<times> db" where
  "ejecutar_todas now [] s = s"
| "ejecutar_todas now (x # xs) s = ejecutar_todas (Suc now) xs (ejecutar now x s)"

section \<open>Carrito (second document of src/backend/models/Pedido.js)\<close>

text \<open>
  \<open>Carrito.prototype.calcularSubtotal\<close>: \<open>parseFloat(this.precioUnitario) * this.cantidad\<close>.
  The price is the DECIMAL(10,2) column, an exact number of hundredths; the model
  multiplies the hundredths and leaves the rounding of the double out.
\<close>

definition calcularSubtotal :: "carrito \<Rightarrow> int" where
  "calcularSubtotal c = precioUnitario c * car_cantidad c"

text \<open>
  \<open>Carrito.obtenerTotalCarrito\<close> reads and assigns the identifier \<open>total\<close>, which
  neither the function nor the module declares, so it resolves against the global
  object.  The global object is a map from names to numbers; reading a name it does not
  bind throws ReferenceError, as the engine does.  \<open>total += e\<close> reads \<open>total\<close>
  before it evaluates \<open>e\<close>.
\<close>

type_synonym global = "string \<rightharpoonup> int"

fun sumar_items :: "global \<Rightarrow> carrito list \<Rightarrow> (error + unit) \<times> global" where
  "sumar_items g [] = (Inr (), g)"
| "sumar_items g (item # items) =
     (case g ''total'' of
        None \<Rightarrow> (Inl (ReferenceError ''total is not defined''), g)
      | Some t \<Rightarrow> sumar_items (g(''total'' \<mapsto> t + calcularSubtotal item)) items)"

definition obtenerTotalCarrito :: "global \<Rightarrow> db \<Rightarrow> nat \<Rightarrow> (error + int) \<times> global" where
  "obtenerTotalCarrito g d usuarioId =
     (case sumar_items g (filter (\<lambda>c. car_usuarioId c = usuarioId) (carritos d)) of
        (Inl e, g1) \<Rightarrow> (Inl e, g1)
      | (Inr u, g1) \<Rightarrow>
          (case g1 ''total'' of
             None \<Rightarrow> (Inl (ReferenceError ''total is not defined''), g1)
           | Some t \<Rightarrow> (Inr t, g1)))"

text \<open>The global object of the runtime: it has no property \<open>total\<close>.\<close>

definition globalThis :: global where
  "globalThis = Map.empty"

text \<open>\<open>Carrito.vaciarCarrito\<close>: \<open>destroy({where: {usuarioId}})\<close>, the number of rows removed.\<close>

definition vaciarCarrito :: "db \<Rightarrow> nat \<Rightarrow> nat \<times> db" where
  "vaciarCarrito d usuarioId =
     (length (filter (\<lambda>c. car_usuarioId c = usuarioId) (carritos d)),
      d\<lparr>carritos := filter (\<lambda>c. car_usuarioId c \<noteq> usuarioId) (carritos d)\<rparr>)"

section \<open>Removing the image of a product (multer.js, beforeDestroy of Producto)\<close>

text \<open>
  What the hook meets outside the program: whether \<open>config/multer\<close> is already in the
  cache of \<open>require\<close>; whether the upload directory exists; what \<open>fs.mkdirSync\<close> does
  when it is asked to create it (\<open>None\<close>: it creates it, \<open>Some e\<close>: it throws
  \<open>e\<close>); and what \<open>fs.existsSync(path.join(dir, name))\<close> answers for a directory and
  a file name.  \<open>fs.existsSync\<close> does not throw: it answers \<open>false\<close> for an absent
  file and for every error of the file system.
\<close>

record entorno =
  multer_cargado :: bool
  carpeta_existe :: bool
  mkdirSync :: "error option"
  existsSync :: "string \<Rightarrow> string \<Rightarrow> bool"

text \<open>
  \<open>require('../config/multer')\<close>, which the hook calls when the product has an image.
  A cached module is returned as it is.  The first load runs the top level of multer.js:
  \<open>if (!fs.existsSync(uploadPath)) { fs.mkdirSync(uploadPath, ...); console.log(...) }\<close>,
  outside any \<open>try\<close>; the rest of the top level configures the library.  A load that
  throws leaves the module out of the cache.
\<close>

definition require_multer :: "entorno \<Rightarrow> string \<Rightarrow> (error + unit) \<times> string list \<times> entorno" where
  "require_multer env uploadPath =
     (if multer_cargado env then (Inr (), [], env)
      else if carpeta_existe env then (Inr (), [], env\<lparr>multer_cargado := True\<rparr>)
      else (case mkdirSync env of
              Some e \<Rightarrow> (Inl e, [], env)
            | None \<Rightarrow>
                (Inr (), [''Carpeta '' @ uploadPath @ '' creada''],
                 env\<lparr>multer_cargado := True, carpeta_existe := True\<rparr>)))"

text \<open>\<open>error.message\<close>.\<close>

fun mensaje :: "error \<Rightarrow> string" where
  "mensaje (Error m) = m"
| "mensaje (ReferenceError m) = m"
| "mensaje (ValidationError m) = m"
| "mensaje e = []"

text \<open>
  The \<open>try\<close> block of \<open>deleteFile\<close> up to the test: \<open>path.join\<close> of two strings and
  \<open>fs.existsSync\<close>, neither of which throws.
\<close>

definition deleteFile_try :: "entorno \<Rightarrow> string \<Rightarrow> string \<Rightarrow> error + bool" where
  "deleteFile_try env uploadPath filename = Inr (existsSync env uploadPath filename)"

text \<open>
  \<open>deleteFile\<close>: the result and the lines written to the console.  The file is not
  removed by any call.  The \<open>catch\<close> turns an exception of the block into \<open>false\<close>.
\<close>

definition deleteFile :: "entorno \<Rightarrow> string \<Rightarrow> string \<Rightarrow> bool \<times> string list" where
  "deleteFile env uploadPath filename =
     (case deleteFile_try env uploadPath filename of
        Inr existe \<Rightarrow>
          if existe then (True, [''Archivo eliminado: '' @ filename])
          else (False, [''Archivo no encontrado: '' @ filename])
      | Inl e \<Rightarrow> (False, [''Error al eliminar el archivo: '' @ mensaje e]))"

text \<open>
  The \<open>beforeDestroy\<close> hook of Producto.  \<open>if (producto.imagen)\<close> is false for NULL and
  for the empty string.  The \<open>require\<close> is the first statement of the branch and is in
  no \<open>try\<close>: an error of the load leaves the hook.
\<close>

definition producto_beforeDestroy ::
    "entorno \<Rightarrow> string \<Rightarrow> producto \<Rightarrow> (error + unit) \<times> string list \<times> entorno" where
  "producto_beforeDestroy env uploadPath p =
     (case imagen p of
        None \<Rightarrow> (Inr (), [], env)
      | Some f \<Rightarrow>
          if f = [] then (Inr (), [], env)
          else (case require_multer env uploadPath of
                  (Inl e, consola, env1) \<Rightarrow> (Inl e, consola, env1)
                | (Inr u, consola, env1) \<Rightarrow>
                    (case deleteFile env1 uploadPath f of
                       (eliminado, consola1) \<Rightarrow>
                         (Inr (),
                          consola @ consola1 @
                            (if eliminado then [''Imagen eliminada: '' @ f] else []),
                          env1))))"

text \<open>
  \<open>producto.destroy()\<close>: the hook runs first and an error of the hook stops the
  deletion; otherwise the row is removed, and with it the cart lines of the product,
  whose \<open>productoId\<close> is declared \<open>onDelete: 'CASCADE'\<close>.
\<close>

definition producto_destroy ::
    "entorno \<Rightarrow> string \<Rightarrow> db \<Rightarrow> producto \<Rightarrow> (error + unit) \<times> db \<times> string list \<times> entorno" where
  "producto_destroy env uploadPath d p =
     (case producto_beforeDestroy env uploadPath p of
        (Inl e, consola, env1) \<Rightarrow> (Inl e, d, consola, env1)
      | (Inr u, consola, env1) \<Rightarrow>
          (Inr (),
           d\<lparr>productos := filter (\<lambda>r. prod_id r \<noteq> prod_id p) (productos d),
             carritos := filter (\<lambda>c. car_productoId c \<noteq> prod_id p) (carritos d)\<rparr>,
           consola, env1))"

section \<open>Cascading deactivation (afterUpdate hooks of Categoria and Subcategoria)\<close>

text \<open>
  The hooks pass \<open>options.transaction\<close> to every \<open>update\<close> and give none to their
  \<open>findAll\<close>s.  The store therefore has two faces: the committed rows, which a read
  without transaction sees and a write without transaction changes, and the rows as the
  open transaction sees them, which a write with a transaction changes.  A transaction
  begins as a copy of the committed rows, \<open>commit\<close> publishes it and \<open>rollback\<close> drops it.
\<close>

record almacen =
  confirmado :: db
  en_transaccion :: db

definition commit :: "almacen \<Rightarrow> almacen" where
  "commit a = a\<lparr>confirmado := en_transaccion a\<rparr>"

definition rollback :: "almacen \<Rightarrow> almacen" where
  "rollback a = a\<lparr>en_transaccion := confirmado a\<rparr>"

definition escribir :: "nat option \<Rightarrow> (db \<Rightarrow> db) \<Rightarrow> almacen \<Rightarrow> almacen" where
  "escribir tx f a =
     (case tx of
        None \<Rightarrow> a\<lparr>confirmado := f (confirmado a)\<rparr>
      | Some t \<Rightarrow> a\<lparr>en_transaccion := f (en_transaccion a)\<rparr>)"

text \<open>The rows a write with the given \<open>options.transaction\<close> lands in.\<close>

definition vista :: "nat option \<Rightarrow> almacen \<Rightarrow> db" where
  "vista tx a = (case tx of None \<Rightarrow> confirmado a | Some t \<Rightarrow> en_transaccion a)"

text \<open>
  The updates the store rejects, by table and primary key: the only way an
  \<open>update({activo: false})\<close> of these models fails, since \<open>activo\<close> has no validator.
\<close>

datatype tabla = TCategorias | TSubcategorias | TProductos

type_synonym falla = "tabla \<Rightarrow> nat \<Rightarrow> bool"

text \<open>The UPDATE statements: the rows with the primary key receive \<open>activo\<close>.\<close>

definition fila_categoria :: "nat \<Rightarrow> bool \<Rightarrow> db \<Rightarrow> db" where
  "fila_categoria k v d =
     d\<lparr>categorias := map (\<lambda>r. if cat_id r = k then r\<lparr>cat_activo := v\<rparr> else r) (categorias d)\<rparr>"

definition fila_subcategoria :: "nat \<Rightarrow> bool \<Rightarrow> db \<Rightarrow> db" where
  "fila_subcategoria k v d =
     d\<lparr>subcategorias :=
         map (\<lambda>r. if sub_id r = k then r\<lparr>sub_activo := v\<rparr> else r) (subcategorias d)\<rparr>"

definition fila_producto :: "nat \<Rightarrow> bool \<Rightarrow> db \<Rightarrow> db" where
  "fila_producto k v d =
     d\<lparr>productos := map (\<lambda>r. if prod_id r = k then r\<lparr>prod_activo := v\<rparr> else r) (productos d)\<rparr>"

text \<open>
  \<open>producto.update({activo: false}, {transaction})\<close> on an instance read earlier: an
  instance that is already inactive has nothing changed and issues no statement.
  Producto has no update hook.
\<close>

definition producto_update_inactivo ::
    "falla \<Rightarrow> nat option \<Rightarrow> producto \<Rightarrow> almacen \<Rightarrow> (error + unit) \<times> almacen" where
  "producto_update_inactivo rechaza tx p a =
     (if \<not> prod_activo p then (Inr (), a)
      else if rechaza TProductos (prod_id p) then (Inl DatabaseError, a)
      else (Inr (), escribir tx (fila_producto (prod_id p) False) a))"

fun desactivar_productos ::
    "falla \<Rightarrow> nat option \<Rightarrow> producto list \<Rightarrow> almacen \<Rightarrow> (error + unit) \<times> almacen" where
  "desactivar_productos rechaza tx [] a = (Inr (), a)"
| "desactivar_productos rechaza tx (p # ps) a =
     (case producto_update_inactivo rechaza tx p a of
        (Inl e, a1) \<Rightarrow> (Inl e, a1)
      | (Inr u, a1) \<Rightarrow> desactivar_productos rechaza tx ps a1)"

text \<open>
  The \<open>afterUpdate\<close> hook of Subcategoria (src/backend/models/Producto.js); the
  \<open>catch\<close> logs and throws the same error again.
\<close>

definition subcategoria_afterUpdate ::
    "falla \<Rightarrow> nat option \<Rightarrow> bool \<Rightarrow> subcategoria \<Rightarrow> almacen \<Rightarrow> (error + unit) \<times> almacen" where
  "subcategoria_afterUpdate rechaza tx activo_changed s a =
     (if activo_changed \<and> \<not> sub_activo s
      then desactivar_productos rechaza tx
             (filter (\<lambda>p. prod_subcategoriaId p = sub_id s) (productos (confirmado a))) a
      else (Inr (), a))"

definition subcategoria_update_inactivo ::
    "falla \<Rightarrow> nat option \<Rightarrow> subcategoria \<Rightarrow> almacen \<Rightarrow> (error + unit) \<times> almacen" where
  "subcategoria_update_inactivo rechaza tx s a =
     (if \<not> sub_activo s then (Inr (), a)
      else if rechaza TSubcategorias (sub_id s) then (Inl DatabaseError, a)
      else subcategoria_afterUpdate rechaza tx True (s\<lparr>sub_activo := False\<rparr>)
             (escribir tx (fila_subcategoria (sub_id s) False) a))"

fun desactivar_subcategorias ::
    "falla \<Rightarrow> nat option \<Rightarrow> subcategoria list \<Rightarrow> almacen \<Rightarrow> (error + unit) \<times> almacen" where
  "desactivar_subcategorias rechaza tx [] a = (Inr (), a)"
| "desactivar_subcategorias rechaza tx (s # ss) a =
     (case subcategoria_update_inactivo rechaza tx s a of
        (Inl e, a1) \<Rightarrow> (Inl e, a1)
      | (Inr u, a1) \<Rightarrow> desactivar_subcategorias rechaza tx ss a1)"

text \<open>The \<open>afterUpdate\<close> hook of Categoria: step 1 the subcategories, step 2 the products.\<close>

definition categoria_afterUpdate ::
    "falla \<Rightarrow> nat option \<Rightarrow> bool \<Rightarrow> categoria \<Rightarrow> almacen \<Rightarrow> (error + unit) \<times> almacen" where
  "categoria_afterUpdate rechaza tx activo_changed c a =
     (if activo_changed \<and> \<not> cat_activo c
      then (case desactivar_subcategorias rechaza tx
                   (filter (\<lambda>s. sub_categoriaId s = cat_id c) (subcategorias (confirmado a))) a of
              (Inl e, a1) \<Rightarrow> (Inl e, a1)
            | (Inr u, a1) \<Rightarrow>
                desactivar_productos rechaza tx
                  (filter (\<lambda>p. prod_categoriaId p = cat_id c) (productos (confirmado a1))) a1)
      else (Inr (), a))"

text \<open>
  \<open>categoria.update({activo: v}, {transaction: tx})\<close>, the update that triggers the
  hook: no statement and no hook when the value does not change, otherwise the UPDATE of
  the row and then the hook with the same options.
\<close>

definition categoria_update_activo ::
    "falla \<Rightarrow> nat option \<Rightarrow> categoria \<Rightarrow> bool \<Rightarrow> almacen \<Rightarrow> (error + unit) \<times> almacen" where
  "categoria_update_activo rechaza tx c v a =
     (if v = cat_activo c then (Inr (), a)
      else if rechaza TCategorias (cat_id c) then (Inl DatabaseError, a)
      else categoria_afterUpdate rechaza tx True (c\<lparr>cat_activo := v\<rparr>)
             (escribir tx (fila_categoria (cat_id c) v) a))"

text \<open>
  What the specification asks of a deactivation, on one table set: the category, its
  subcategories, and the products of the category or of one of its subcategories that
  was active, receive \<open>activo = false\<close>; every other row and field stays.
\<close>

definition cascada :: "nat \<Rightarrow> db \<Rightarrow> db" where
  "cascada k d =
     d\<lparr>categorias :=
         map (\<lambda>r. if cat_id r = k then r\<lparr>cat_activo := False\<rparr> else r) (categorias d),
       subcategorias :=
         map (\<lambda>r. if sub_categoriaId r = k then r\<lparr>sub_activo := False\<rparr> else r)
           (subcategorias d),
       productos :=
         map (\<lambda>r. if prod_categoriaId r = k \<or>
                     list_ex (\<lambda>s. sub_id s = prod_subcategoriaId r \<and> sub_categoriaId s = k \<and>
                                  sub_activo s) (subcategorias d)
                  then r\<lparr>prod_activo := False\<rparr> else r)
           (productos d)\<rparr>"

text \<open>The primary keys of the catalog tables are unique.\<close>

definition claves_unicas :: "db \<Rightarrow> bool" where
  "claves_unicas d =
     (distinct (map cat_id (categorias d)) \<and> distinct (map sub_id (subcategorias d)) \<and>
      distinct (map prod_id (productos d)))"

section \<open>Checkout\<close>

text \<open>
  Modelled from the spec: \<open>checkout\<close>, as section 4.4 of the specification words it;
  the checkout of the repository is not among the sources.  The steps it takes on a line
  are the repository's own methods: the re-validation is \<open>Producto.prototype.hayStock\<close>,
  the decrement is the method the source documents as the one that reduces the stock,
  \<open>Producto.prototype.aumentarStock\<close>, and the cart is emptied by
  \<open>Carrito.vaciarCarrito\<close>.  None of the three takes a transaction, so what they write
  is committed when they write it.  The order and its lines are the writes of the
  checkout's own transaction: a success publishes them, a failure drops them.  A line
  whose product is absent fails with NotFoundError.
\<close>

fun checkout_lineas :: "db \<Rightarrow> carrito list \<Rightarrow> (error + unit) \<times> db" where
  "checkout_lineas d [] = (Inr (), d)"
| "checkout_lineas d (l # ls) =
     (case producto_findByPk d (car_productoId l) of
        None \<Rightarrow> (Inl NotFoundError, d)
      | Some p \<Rightarrow>
          (case hayStock d p (car_cantidad l) of
             (v, p1, d1) \<Rightarrow>
               if \<not> truthy v then (Inl InsufficientStockError, d1)
               else (case aumentarStock d1 p1 (car_cantidad l) of
                       (Inl e, p2, d2) \<Rightarrow> (Inl e, d2)
                     | (Inr u, p2, d2) \<Rightarrow> checkout_lineas d2 ls)))"

definition spec_detalle :: "nat \<Rightarrow> carrito \<Rightarrow> detallePedido" where
  "spec_detalle k l =
     \<lparr>det_pedidoId = k, det_productoId = car_productoId l, det_cantidad = car_cantidad l,
      det_precioUnitario = precioUnitario l\<rparr>"

definition spec_total :: "carrito list \<Rightarrow> int" where
  "spec_total ls = sum_list (map (\<lambda>l. precioUnitario l * car_cantidad l) ls)"

definition spec_pedido :: "nat \<Rightarrow> nat \<Rightarrow> carrito list \<Rightarrow> string \<Rightarrow> string \<Rightarrow> string option \<Rightarrow> pedido" where
  "spec_pedido k usuarioId ls shippingAddress contactPhone notes =
     \<lparr>pedido_id = k, pedido_usuarioId = usuarioId, pedido_total = spec_total ls,
      estado = ''pendiente'', estado_changed = False, direccionEnvio = shippingAddress,
      telefono = contactPhone, notas = notes, fechaPago = None, fechaEnvio = None,
      fechaEntrega = None\<rparr>"

text \<open>
  \<open>k\<close> is the primary key the store gives the new order.  The result is the error or
  the success, and the committed store after the call.
\<close>

definition checkout ::
    "db \<Rightarrow> nat \<Rightarrow> nat \<Rightarrow> string \<Rightarrow> string \<Rightarrow> string option \<Rightarrow> (error + unit) \<times> db" where
  "checkout d k usuarioId shippingAddress contactPhone notes =
     (let ls = filter (\<lambda>c. car_usuarioId c = usuarioId) (carritos d)
      in if ls = [] then (Inl EmptyCartError, d)
         else (case checkout_lineas d ls of
                 (Inl e, d1) \<Rightarrow> (Inl e, d1)
               | (Inr u, d1) \<Rightarrow>
                   (Inr (),
                    snd (vaciarCarrito
                      (d1\<lparr>pedidos :=
                            pedidos d1 @
                              [spec_pedido k usuarioId ls shippingAddress contactPhone notes],
                          detalles := detalles d1 @ map (spec_detalle k) ls\<rparr>)
                      usuarioId))))"

text \<open>
  Vocabulary for the proofs about the cascade: the rows of a set of primary keys
  receive \<open>activo = false\<close>; the keys of the active products that satisfy a
  condition; the keys of the active subcategories of a list of instances.
\<close>

definition apagar_subcategorias :: "nat set \<Rightarrow> db \<Rightarrow> db" where
  "apagar_subcategorias U d =
     d\<lparr>subcategorias :=
         map (\<lambda>r. if sub_id r \<in> U then r\<lparr>sub_activo := False\<rparr> else r) (subcategorias d)\<rparr>"

definition apagar_productos :: "nat set \<Rightarrow> db \<Rightarrow> db" where
  "apagar_productos S d =
     d\<lparr>productos :=
         map (\<lambda>r. if prod_id r \<in> S then r\<lparr>prod_activo := False\<rparr> else r) (productos d)\<rparr>"

definition ids_activos :: "(producto \<Rightarrow> bool) \<Rightarrow> db \<Rightarrow> nat set" where
  "ids_activos Q d = prod_id ` {p \<in> set (productos d). Q p \<and> prod_activo p}"

definition subs_activas :: "subcategoria list \<Rightarrow> nat set" where
  "subs_activas ss = sub_id ` {s \<in> set ss. sub_activo s}"

section \<open>Concrete data\<close>

definition pedido_enviado :: pedido where
  "pedido_enviado =
     \<lparr>pedido_id = 1, pedido_usuarioId = 1, pedido_total = 1998, estado = ''enviado'',
      estado_changed = False, direccionEnvio = ''Calle 1'', telefono = ''555'', notas = None,
      fechaPago = Some 3, fechaEnvio = Some 5, fechaEntrega = None\<rparr>"

definition pedido_pendiente :: pedido where
  "pedido_pendiente =
     \<lparr>pedido_id = 1, pedido_usuarioId = 1, pedido_total = 1998, estado = ''pendiente'',
      estado_changed = False, direccionEnvio = ''Calle 1'', telefono = ''555'', notas = None,
      fechaPago = None, fechaEnvio = None, fechaEntrega = None\<rparr>"

definition producto_p :: producto where
  "producto_p =
     \<lparr>prod_id = 1, prod_nombre = ''cafe'', precio = 999, stock = 5, imagen = Some ''cafe.jpg'',
      prod_subcategoriaId = 1, prod_categoriaId = 1, prod_activo = True\<rparr>"

definition db_p :: db where
  "db_p =
     \<lparr>categorias = [], subcategorias = [], productos = [producto_p], carritos = [], pedidos = [],
      detalles = [\<lparr>det_pedidoId = 1, det_productoId = 1, det_cantidad = 2,
                   det_precioUnitario = 999\<rparr>]\<rparr>"

definition db_carrito :: db where
  "db_carrito =
     db_p\<lparr>productos :=
           [producto_p, producto_p\<lparr>prod_id := 2, prod_nombre := ''jugo'', precio := 450, stock := 1\<rparr>],
         carritos :=
           [\<lparr>car_id = 1, car_usuarioId = 1, car_productoId = 1, car_cantidad = 2,
              precioUnitario = 999\<rparr>,
            \<lparr>car_id = 2, car_usuarioId = 1, car_productoId = 2, car_cantidad = 1,
              precioUnitario = 450\<rparr>]\<rparr>"

definition categoria_1 :: categoria where
  "categoria_1 = \<lparr>cat_id = 1, cat_nombre = ''bebidas'', cat_activo = True\<rparr>"

definition catalogo :: db where
  "catalogo =
     \<lparr>categorias = [categoria_1, \<lparr>cat_id = 2, cat_nombre = ''snacks'', cat_activo = True\<rparr>],
      subcategorias =
        [\<lparr>sub_id = 1, sub_categoriaId = 1, sub_nombre = ''cafes'', sub_activo = True\<rparr>,
         \<lparr>sub_id = 2, sub_categoriaId = 1, sub_nombre = ''jugos'', sub_activo = True\<rparr>,
         \<lparr>sub_id = 3, sub_categoriaId = 2, sub_nombre = ''papas'', sub_activo = True\<rparr>],
      productos =
        [producto_p,
         producto_p\<lparr>prod_id := 2, prod_nombre := ''jugo'', prod_subcategoriaId := 2\<rparr>,
         producto_p\<lparr>prod_id := 3, prod_nombre := ''papa'', prod_subcategoriaId := 3,
                     prod_categoriaId := 2\<rparr>],
      carritos = [], pedidos = [], detalles = []\<rparr>"

definition almacen_catalogo :: almacen where
  "almacen_catalogo = \<lparr>confirmado = catalogo, en_transaccion = catalogo\<rparr>"

text \<open>A store that rejects the update of subcategory 2, and one that rejects nothing.\<close>

definition rechaza_sub_2 :: falla where
  "rechaza_sub_2 t k = (t = TSubcategorias \<and> k = 2)"

definition sin_fallas :: falla where
  "sin_fallas t k = False"

text \<open>
  A store whose open transaction already holds a fourth subcategory and a fourth
  product, both active and of category 1, that are not committed yet.
\<close>

definition almacen_con_escrituras :: almacen where
  "almacen_con_escrituras =
     \<lparr>confirmado = catalogo,
      en_transaccion =
        catalogo\<lparr>subcategorias :=
                   subcategorias catalogo @
                     [\<lparr>sub_id = 4, sub_categoriaId = 1, sub_nombre = ''aguas'', sub_activo = True\<rparr>],
                 productos :=
                   productos catalogo @
                     [producto_p\<lparr>prod_id := 4, prod_nombre := ''agua'', prod_subcategoriaId := 4\<rparr>]\<rparr>\<rparr>"

text \<open>
  A process that has not loaded \<open>config/multer\<close>, with no upload directory and no
  permission to create it; and one that has loaded it, in which the file is absent.
\<close>

definition entorno_sin_carpeta :: entorno where
  "entorno_sin_carpeta =
     \<lparr>multer_cargado = False, carpeta_existe = False,
      mkdirSync = Some (Error ''EACCES: permission denied, mkdir'' ),
      existsSync = (\<lambda>dir name. True)\<rparr>"

definition entorno_cargado :: entorno where
  "entorno_cargado =
     \<lparr>multer_cargado = True, carpeta_existe = True, mkdirSync = None,
      existsSync = (\<lambda>dir name. False)\<rparr>"

section \<open>Properties of the order status\<close>

lemma estado_beforeUpdate: "estado (pedido_beforeUpdate now p) = estado p"
  by (simp add: pedido_beforeUpdate_def pedido_save_sin_hooks_def Let_def)

lemma rama_entregado_valido:
  "estado p \<in> set estadosValidos \<Longrightarrow> rama_entregado p = False"
  by (auto simp: rama_entregado_def estadosValidos_def)

lemma fechaEntrega_beforeUpdate:
  "estado p \<in> set estadosValidos \<Longrightarrow>
   fechaEntrega (pedido_beforeUpdate now p) = fechaEntrega p"
  by (auto simp: pedido_beforeUpdate_def pedido_save_sin_hooks_def Let_def rama_entregado_def
      estadosValidos_def)

lemma pedido_save_valido:
  "estado p \<in> set estadosValidos \<Longrightarrow>
   fst (pedido_save now p) = Inr () \<and>
   estado (snd (pedido_save now p)) = estado p \<and>
   fechaEntrega (snd (pedido_save now p)) = fechaEntrega p"
  by (simp add: pedido_save_def pedido_save_sin_hooks_def estado_beforeUpdate
      fechaEntrega_beforeUpdate)

lemma estado_set_estado: "estado (set_estado p v) = v"
  by (simp add: set_estado_def)

lemma fechaEntrega_set_estado: "fechaEntrega (set_estado p v) = fechaEntrega p"
  by (simp add: set_estado_def)

lemma cambiarEstado_estado:
  "estado p \<in> set estadosValidos \<Longrightarrow>
   estado (snd (cambiarEstado now p s)) \<in> set estadosValidos \<and>
   fechaEntrega (snd (cambiarEstado now p s)) = fechaEntrega p"
  using pedido_save_valido [of "set_estado p s" now]
  by (simp add: cambiarEstado_def estado_set_estado fechaEntrega_set_estado)

lemma cancelar_estado:
  "estado p \<in> set estadosValidos \<Longrightarrow>
   estado (fst (snd (cancelar now d p))) \<in> set estadosValidos \<and>
   fechaEntrega (fst (snd (cancelar now d p))) = fechaEntrega p"
  apply (simp add: cancelar_def split: prod.splits sum.splits)
  apply (intro conjI impI allI)
  using pedido_save_valido [of "set_estado p ''cancelado''" now]
   apply (auto simp: estado_set_estado fechaEntrega_set_estado estadosValidos_def)
  done

lemma ejecutar_estado:
  "estado (fst s) \<in> set estadosValidos \<Longrightarrow>
   estado (fst (ejecutar now x s)) \<in> set estadosValidos \<and>
   fechaEntrega (fst (ejecutar now x s)) = fechaEntrega (fst s)"
  by (cases x; cases s) (simp_all add: cambiarEstado_estado cancelar_estado)

lemma ejecutar_todas_estado:
  "estado (fst s) \<in> set estadosValidos \<Longrightarrow>
   estado (fst (ejecutar_todas now xs s)) \<in> set estadosValidos \<and>
   fechaEntrega (fst (ejecutar_todas now xs s)) = fechaEntrega (fst s)"
proof (induction xs arbitrary: now s)
  case Nil
  then show ?case by simp
next
  case (Cons x xs)
  from ejecutar_estado [OF Cons.prems, of now x]
  have a: "estado (fst (ejecutar now x s)) \<in> set estadosValidos"
    and b: "fechaEntrega (fst (ejecutar now x s)) = fechaEntrega (fst s)" by simp_all
  from Cons.IH [OF a, of "Suc now"] b show ?case by simp
qed

text \<open>
  C1, as the code has it.  \<open>cambiarEstado\<close> checks the new status against the list of
  four and nothing else: with a status of the list it succeeds from every current status
  and the order has the new status; with any other string, \<open>entregado\<close> included, it
  throws and the order is as it was.  No transition is checked.
\<close>

theorem cambiarEstado_sin_transiciones:
  "(s \<in> set estadosValidos \<longrightarrow>
      fst (cambiarEstado now p s) = Inr () \<and> estado (snd (cambiarEstado now p s)) = s) \<and>
   (s \<notin> set estadosValidos \<longrightarrow>
      cambiarEstado now p s =
        (Inl (Error ''Estado no valido, debe ser pendiente, pagado, enviado o cancelado''), p))"
  by (simp add: cambiarEstado_def pedido_save_valido estado_set_estado)

theorem cambiarEstado_sin_transiciones_witness:
  "''pagado'' \<in> set estadosValidos \<and>
   fst (cambiarEstado 7 pedido_pendiente ''pagado'') = Inr () \<and>
   estado (snd (cambiarEstado 7 pedido_pendiente ''pagado'')) = ''pagado'' \<and>
   ''entregado'' \<notin> set estadosValidos \<and>
   cambiarEstado 7 pedido_enviado ''entregado'' =
     (Inl (Error ''Estado no valido, debe ser pendiente, pagado, enviado o cancelado''),
      pedido_enviado)"
  using cambiarEstado_sin_transiciones [of "''pagado''" 7 pedido_pendiente]
    cambiarEstado_sin_transiciones [of "''entregado''" 7 pedido_enviado]
  by (simp add: estadosValidos_def)

text \<open>
  C1 as stated fails: the transition from \<open>enviado\<close> (shipped) back to \<open>pendiente\<close>
  (pending) is not in the state machine, and the call succeeds and changes the status.
\<close>

theorem cambiarEstado_enviado_a_pendiente:
  "cambiarEstado 7 pedido_enviado ''pendiente'' =
     (Inr (), pedido_enviado\<lparr>estado := ''pendiente''\<rparr>)"
  by (simp add: cambiarEstado_def pedido_save_def set_estado_def pedido_beforeUpdate_def
      pedido_save_sin_hooks_def rama_entregado_def estadosValidos_def pedido_enviado_def Let_def)

text \<open>
  C10.  An order whose status is one of the four values keeps a status among the four
  through every sequence of \<open>cambiarEstado\<close> and \<open>cancelar\<close> calls, failed or not:
  the status is never \<open>entregado\<close>, the condition of the hook's third branch is false,
  and \<open>fechaEntrega\<close> keeps its value.  \<open>entregado\<close> is not in the list of
  \<open>cambiarEstado\<close>, which rejects it.
\<close>

theorem estado_nunca_entregado:
  "estado p \<in> set estadosValidos \<Longrightarrow>
   estado (fst (ejecutar_todas now xs (p, d))) \<in> set estadosValidos \<and>
   estado (fst (ejecutar_todas now xs (p, d))) \<noteq> ''entregado'' \<and>
   \<not> rama_entregado (fst (ejecutar_todas now xs (p, d))) \<and>
   fechaEntrega (fst (ejecutar_todas now xs (p, d))) = fechaEntrega p \<and>
   ''entregado'' \<notin> set estadosValidos \<and>
   fst (cambiarEstado now p ''entregado'') \<noteq> Inr ()"
  using ejecutar_todas_estado [of "(p, d)" now xs]
  by (auto simp: rama_entregado_def estadosValidos_def cambiarEstado_def)

theorem estado_nunca_entregado_witness:
  "estado pedido_pendiente \<in> set estadosValidos \<and>
   estado (fst (ejecutar_todas 10
       [CambiarEstado ''pagado'', CambiarEstado ''entregado'', CambiarEstado ''enviado'', Cancelar]
       (pedido_pendiente, db_p))) \<noteq> ''entregado'' \<and>
   fechaEntrega (fst (ejecutar_todas 10
       [CambiarEstado ''pagado'', CambiarEstado ''entregado'', CambiarEstado ''enviado'', Cancelar]
       (pedido_pendiente, db_p))) = None"
proof -
  have h: "estado pedido_pendiente \<in> set estadosValidos"
    by (simp add: pedido_pendiente_def estadosValidos_def)
  have "fechaEntrega pedido_pendiente = None"
    by (simp add: pedido_pendiente_def)
  with h estado_nunca_entregado [OF h, of 10
      "[CambiarEstado ''pagado'', CambiarEstado ''entregado'', CambiarEstado ''enviado'', Cancelar]"
      db_p]
  show ?thesis by simp
qed

section \<open>Properties of the stock methods\<close>

lemma truthy_hayStock: "truthy (fst (hayStock d p c))"
  by (simp add: hayStock_def Let_def split: prod.splits)

lemma aumentarStock_lanza: "fst (aumentarStock d p c) = Inl (Error ''Stock insuficiente'')"
  by (simp add: aumentarStock_def hayStock_def Let_def split: prod.splits)

text \<open>
  C3 at a product with stock 5 and quantity 10.  A predicate \<open>quantity \<le> stock\<close> is
  false there and changes nothing; \<open>hayStock\<close> returns a promise, which is truthy, the
  instance has stock 15 and so has the stored row.
\<close>

theorem hayStock_muta_el_stock:
  "truthy (fst (hayStock db_p producto_p 10)) \<and>
   stock (fst (snd (hayStock db_p producto_p 10))) = 15 \<and>
   map stock (productos (snd (snd (hayStock db_p producto_p 10)))) = [15]"
  by (simp add: hayStock_def producto_save_def db_p_def producto_p_def Let_def)

text \<open>
  C4 at a product with stock 5 and quantity 3: \<open>aumentarStock\<close> throws
  \<open>Stock insuficiente\<close> instead of succeeding; the stock, raised to 8 by the call of
  \<open>hayStock\<close> in its condition, stays at 8.
\<close>

theorem aumentarStock_lanza_en_5_3:
  "aumentarStock db_p producto_p 3 =
     (Inl (Error ''Stock insuficiente''), producto_p\<lparr>stock := 8\<rparr>,
      db_p\<lparr>productos := [producto_p\<lparr>stock := 8\<rparr>]\<rparr>)"
  by (simp add: aumentarStock_def hayStock_def producto_save_def db_p_def producto_p_def Let_def)

text \<open>
  C2 at a product with stock 5 and quantity 5.  The method documented as the one that
  reduces the stock is \<open>aumentarStock\<close>; with a quantity that the stock covers it
  throws \<open>Stock insuficiente\<close> and the stock is 10, where the claim has a success and
  stock 0.
\<close>

theorem reducir_stock_lanza_en_5_5:
  "fst (aumentarStock db_p producto_p 5) = Inl (Error ''Stock insuficiente'') \<and>
   stock (fst (snd (aumentarStock db_p producto_p 5))) = 10 \<and>
   map stock (productos (snd (snd (aumentarStock db_p producto_p 5)))) = [10]"
  by (simp add: aumentarStock_def hayStock_def producto_save_def db_p_def producto_p_def Let_def)

text \<open>
  C5 at a pending order with one line of two units of a product with stock 5:
  \<open>cancelar\<close> throws \<open>Stock insuficiente\<close> at the first line, the order is still
  pending, and the stock of the product is 7.
\<close>

theorem cancelar_pendiente_lanza:
  "cancelar 9 db_p pedido_pendiente =
     (Inl (Error ''Stock insuficiente''), pedido_pendiente,
      db_p\<lparr>productos := [producto_p\<lparr>stock := 7\<rparr>]\<rparr>)"
  by (simp add: cancelar_def puedeSerCancelado_def pedido_pendiente_def producto_findByPk_def
      aumentarStock_def hayStock_def producto_save_def db_p_def producto_p_def Let_def)

section \<open>Properties of the cart total\<close>

lemma sumar_items_sin_total:
  "g ''total'' = None \<Longrightarrow>
   sumar_items g items =
     (if items = [] then (Inr (), g) else (Inl (ReferenceError ''total is not defined''), g))"
  by (cases items) simp_all

lemma obtenerTotalCarrito_sin_total:
  "g ''total'' = None \<Longrightarrow>
   obtenerTotalCarrito g d u = (Inl (ReferenceError ''total is not defined''), g)"
  by (simp add: obtenerTotalCarrito_def sumar_items_sin_total)

text \<open>
  C8 at a user with an empty cart and at a user with two lines: \<open>obtenerTotalCarrito\<close>
  throws ReferenceError in both, where the claim has 0 and the sum of the subtotals.
\<close>

theorem obtenerTotalCarrito_lanza:
  "fst (obtenerTotalCarrito globalThis db_p 1) = Inl (ReferenceError ''total is not defined'') \<and>
   fst (obtenerTotalCarrito globalThis db_carrito 1) =
     Inl (ReferenceError ''total is not defined'')"
  by (simp add: obtenerTotalCarrito_sin_total globalThis_def)

section \<open>Properties of the deletion of a product\<close>

lemma deleteFile_no_lanza:
  "deleteFile env up f =
     (if existsSync env up f then (True, [''Archivo eliminado: '' @ f])
      else (False, [''Archivo no encontrado: '' @ f]))"
  by (simp add: deleteFile_def deleteFile_try_def)

lemma require_multer_carga:
  "multer_cargado env \<or> carpeta_existe env \<or> mkdirSync env = None \<Longrightarrow>
   fst (require_multer env up) = Inr () \<and>
   existsSync (snd (snd (require_multer env up))) = existsSync env"
  by (auto simp: require_multer_def)

text \<open>
  C9, as the code has it.  Let the product have no image, or let \<open>config/multer\<close> be
  loaded already or load without error (the upload directory exists or can be
  created).  Then \<open>destroy\<close> succeeds for every store and every answer of the file
  system about the image, and removes the row.  When the product has an image,
  \<open>deleteFile\<close> is called with it: the console holds, after the line of the load if
  there is one, the line of \<open>deleteFile\<close>, which for an absent or unreadable file
  reports a file not found, and nothing reaches the caller.
\<close>

theorem producto_destroy_con_modulo:
  assumes "imagen p = None \<or> imagen p = Some [] \<or>
           multer_cargado env \<or> carpeta_existe env \<or> mkdirSync env = None"
  shows "fst (producto_destroy env up d p) = Inr () \<and>
         productos (fst (snd (producto_destroy env up d p))) =
           filter (\<lambda>r. prod_id r \<noteq> prod_id p) (productos d) \<and>
         (imagen p = Some f \<and> f \<noteq> [] \<longrightarrow>
            fst (snd (snd (producto_destroy env up d p))) =
              fst (snd (require_multer env up)) @
              (if existsSync env up f
               then [''Archivo eliminado: '' @ f, ''Imagen eliminada: '' @ f]
               else [''Archivo no encontrado: '' @ f]))"
proof (cases "imagen p = None \<or> imagen p = Some []")
  case True
  then show ?thesis
    by (auto simp: producto_destroy_def producto_beforeDestroy_def)
next
  case False
  with assms have c: "multer_cargado env \<or> carpeta_existe env \<or> mkdirSync env = None"
    by auto
  obtain r co env1 where e: "require_multer env up = (r, co, env1)"
    by (cases "require_multer env up")
  with require_multer_carga [OF c, of up]
  have r: "r = Inr ()" and x: "existsSync env1 = existsSync env" by simp_all
  from False obtain g where g: "imagen p = Some g" "g \<noteq> []" by auto
  show ?thesis
    using g e r x
    by (simp add: producto_destroy_def producto_beforeDestroy_def deleteFile_no_lanza)
qed

theorem producto_destroy_con_modulo_witness:
  "multer_cargado entorno_cargado \<and>
   imagen producto_p = Some ''cafe.jpg'' \<and> ''cafe.jpg'' \<noteq> [] \<and>
   fst (producto_destroy entorno_cargado ''./uploads'' db_p producto_p) = Inr () \<and>
   productos (fst (snd (producto_destroy entorno_cargado ''./uploads'' db_p producto_p))) = [] \<and>
   fst (snd (snd (producto_destroy entorno_cargado ''./uploads'' db_p producto_p))) =
     [''Archivo no encontrado: cafe.jpg'']"
proof -
  have c: "multer_cargado entorno_cargado"
    by (simp add: entorno_cargado_def)
  then have h: "imagen producto_p = None \<or> imagen producto_p = Some [] \<or>
      multer_cargado entorno_cargado \<or> carpeta_existe entorno_cargado \<or>
      mkdirSync entorno_cargado = None"
    by simp
  have i: "imagen producto_p = Some ''cafe.jpg''"
    by (simp add: producto_p_def)
  have x: "\<not> existsSync entorno_cargado ''./uploads'' ''cafe.jpg''"
    by (simp add: entorno_cargado_def)
  have q: "fst (snd (require_multer entorno_cargado ''./uploads'')) = []"
    by (simp add: require_multer_def entorno_cargado_def)
  have f: "filter (\<lambda>r. prod_id r \<noteq> prod_id producto_p) (productos db_p) = []"
    by (simp add: db_p_def)
  from producto_destroy_con_modulo
    [OF h, where up = "''./uploads''" and d = db_p and f = "''cafe.jpg''"] c i x q f
  show ?thesis by simp
qed

text \<open>
  C9 as stated fails when the hook is the first to load \<open>config/multer\<close> and the upload
  directory can not be created: the error of \<open>fs.mkdirSync\<close> leaves the hook,
  \<open>destroy\<close> fails and the row of the product stays.
\<close>

theorem producto_destroy_falla_al_cargar:
  "fst (producto_destroy entorno_sin_carpeta ''./uploads'' db_p producto_p) =
     Inl (Error ''EACCES: permission denied, mkdir'') \<and>
   fst (snd (producto_destroy entorno_sin_carpeta ''./uploads'' db_p producto_p)) = db_p"
  by (simp add: producto_destroy_def producto_beforeDestroy_def require_multer_def
      entorno_sin_carpeta_def producto_p_def)

section \<open>Properties of the cascading deactivation\<close>

lemma fila_producto_apagar: "fila_producto k False = apagar_productos {k}"
  by (rule ext) (simp add: fila_producto_def apagar_productos_def)

lemma fila_subcategoria_apagar: "fila_subcategoria k False = apagar_subcategorias {k}"
  by (rule ext) (simp add: fila_subcategoria_def apagar_subcategorias_def)

lemma apagar_productos_vacio [simp]: "apagar_productos {} d = d"
  by (simp add: apagar_productos_def)

lemma apagar_subcategorias_vacio [simp]: "apagar_subcategorias {} d = d"
  by (simp add: apagar_subcategorias_def)

lemma apagar_productos_union:
  "apagar_productos S (apagar_productos T d) = apagar_productos (S \<union> T) d"
  by (simp add: apagar_productos_def comp_def) 

lemma apagar_subcategorias_union:
  "apagar_subcategorias S (apagar_subcategorias T d) = apagar_subcategorias (S \<union> T) d"
  by (simp add: apagar_subcategorias_def comp_def)

lemma apagar_conmutan:
  "apagar_subcategorias U (apagar_productos S d) = apagar_productos S (apagar_subcategorias U d)"
  by (simp add: apagar_subcategorias_def apagar_productos_def)

lemma productos_apagar_subcategorias [simp]:
  "productos (apagar_subcategorias U d) = productos d"
  by (simp add: apagar_subcategorias_def)

lemma subcategorias_apagar_productos [simp]:
  "subcategorias (apagar_productos S d) = subcategorias d"
  by (simp add: apagar_productos_def)

lemma productos_apagar_productos:
  "productos (apagar_productos S d) =
     map (\<lambda>r. if prod_id r \<in> S then r\<lparr>prod_activo := False\<rparr> else r) (productos d)"
  by (simp add: apagar_productos_def)

lemma productos_fila_categoria [simp]: "productos (fila_categoria k v d) = productos d"
  by (simp add: fila_categoria_def)

lemma subcategorias_fila_categoria [simp]: "subcategorias (fila_categoria k v d) = subcategorias d"
  by (simp add: fila_categoria_def)

lemma ids_activos_cong: "productos d = productos e \<Longrightarrow> ids_activos Q d = ids_activos Q e"
  by (simp add: ids_activos_def)

lemma ids_activos_apagar:
  assumes "\<And>r. Q (r\<lparr>prod_activo := False\<rparr>) = Q r"
  shows "ids_activos Q (apagar_productos T d) \<union> T = ids_activos Q d \<union> T"
  using assms by (auto simp: ids_activos_def apagar_productos_def image_iff split: if_splits) 

lemma escribir_escribir: "escribir tx f (escribir tx g a) = escribir tx (f \<circ> g) a"
  by (simp add: escribir_def split: option.splits)

lemma vista_escribir: "vista tx (escribir tx f a) = f (vista tx a)"
  by (simp add: escribir_def vista_def split: option.splits)

lemma confirmado_escribir_Some: "confirmado (escribir (Some t) f a) = confirmado a"
  by (simp add: escribir_def)

lemma confirmado_escribir_None: "confirmado (escribir None f a) = f (confirmado a)"
  by (simp add: escribir_def)

lemma escribir_id: "escribir tx (\<lambda>d. d) a = a"
  by (simp add: escribir_def split: option.splits)

lemma desactivar_productos_ok:
  "fst (desactivar_productos rechaza tx ps a) = Inr () \<Longrightarrow>
   snd (desactivar_productos rechaza tx ps a) =
     escribir tx (apagar_productos (prod_id ` {p \<in> set ps. prod_activo p})) a"
proof (induction ps arbitrary: a)
  case Nil
  then show ?case by (simp add: escribir_id)
next
  case (Cons p ps)
  show ?case
  proof (cases "prod_activo p")
    case False
    with Cons.prems have "fst (desactivar_productos rechaza tx ps a) = Inr ()"
      by (simp add: producto_update_inactivo_def)
    from Cons.IH [OF this]
    have "snd (desactivar_productos rechaza tx ps a) =
          escribir tx (apagar_productos (prod_id ` {p \<in> set ps. prod_activo p})) a" .
    moreover have "prod_id ` {q \<in> set (p # ps). prod_activo q} =
          prod_id ` {p \<in> set ps. prod_activo p}"
      using False by auto
    ultimately show ?thesis using False
      by (simp add: producto_update_inactivo_def)
  next
    case True
    with Cons.prems have nr: "\<not> rechaza TProductos (prod_id p)"
      by (auto simp: producto_update_inactivo_def split: if_splits)
    let ?a1 = "escribir tx (fila_producto (prod_id p) False) a"
    from Cons.prems True nr have "fst (desactivar_productos rechaza tx ps ?a1) = Inr ()"
      by (simp add: producto_update_inactivo_def)
    from Cons.IH [OF this]
    have "snd (desactivar_productos rechaza tx ps ?a1) =
          escribir tx (apagar_productos (prod_id ` {p \<in> set ps. prod_activo p})) ?a1" .
    moreover have "prod_id ` {q \<in> set (p # ps). prod_activo q} =
          prod_id ` {p \<in> set ps. prod_activo p} \<union> {prod_id p}"
      using True by auto
    moreover have "producto_update_inactivo rechaza tx p a = (Inr (), ?a1)"
      using True nr by (simp add: producto_update_inactivo_def)
    ultimately show ?thesis
      by (simp add: escribir_escribir fila_producto_apagar comp_def apagar_productos_union)
  qed
qed

lemma desactivar_productos_filter:
  "fst (desactivar_productos rechaza tx (filter Q (productos d)) a) = Inr () \<Longrightarrow>
   snd (desactivar_productos rechaza tx (filter Q (productos d)) a) =
     escribir tx (apagar_productos (ids_activos Q d)) a"
proof -
  assume h: "fst (desactivar_productos rechaza tx (filter Q (productos d)) a) = Inr ()"
  have "prod_id ` {p \<in> set (filter Q (productos d)). prod_activo p} = ids_activos Q d"
    by (auto simp: ids_activos_def)
  with desactivar_productos_ok [OF h] show ?thesis by simp
qed


lemma ids_activos_tras_escribir:
  assumes q: "\<And>r. Q (r\<lparr>prod_activo := False\<rparr>) = Q r"
    and f: "\<And>d. productos (f d) = productos (apagar_productos T d)"
  shows "ids_activos Q (confirmado (escribir tx f a)) \<union> T = ids_activos Q (confirmado a) \<union> T"
proof (cases tx)
  case None
  have "ids_activos Q (f (confirmado a)) = ids_activos Q (apagar_productos T (confirmado a))"
    by (rule ids_activos_cong) (rule f)
  with None show ?thesis
    by (simp add: confirmado_escribir_None ids_activos_apagar [of Q, OF q])
next
  case (Some t)
  then show ?thesis by (simp add: confirmado_escribir_Some)
qed

lemma productos_confirmado_escribir:
  assumes "\<And>d. productos (f d) = productos d"
  shows "productos (confirmado (escribir tx f a)) = productos (confirmado a)"
  using assms by (cases tx) (simp_all add: escribir_def)

lemma subcategorias_confirmado_escribir:
  assumes "\<And>d. subcategorias (f d) = subcategorias d"
  shows "subcategorias (confirmado (escribir tx f a)) = subcategorias (confirmado a)"
  using assms by (cases tx) (simp_all add: escribir_def)

lemma subcategoria_update_inactivo_inactiva:
  "\<not> sub_activo s \<Longrightarrow> subcategoria_update_inactivo rechaza tx s a = (Inr (), a)"
  by (simp add: subcategoria_update_inactivo_def)

lemma subcategoria_update_inactivo_ok:
  assumes act: "sub_activo s"
    and ok: "fst (subcategoria_update_inactivo rechaza tx s a) = Inr ()"
  shows "snd (subcategoria_update_inactivo rechaza tx s a) =
     escribir tx (apagar_productos
                    (ids_activos (\<lambda>p. prod_subcategoriaId p = sub_id s) (confirmado a)) \<circ>
                  apagar_subcategorias {sub_id s}) a"
proof -
  let ?a1 = "escribir tx (apagar_subcategorias {sub_id s}) a"
  let ?Q = "\<lambda>p. prod_subcategoriaId p = sub_id s"
  from act ok have nr: "\<not> rechaza TSubcategorias (sub_id s)"
    by (auto simp: subcategoria_update_inactivo_def split: if_splits)
  have eq: "subcategoria_update_inactivo rechaza tx s a =
      desactivar_productos rechaza tx (filter ?Q (productos (confirmado ?a1))) ?a1"
    using act nr
    by (simp add: subcategoria_update_inactivo_def subcategoria_afterUpdate_def
        fila_subcategoria_apagar)
  with ok have "fst (desactivar_productos rechaza tx (filter ?Q (productos (confirmado ?a1))) ?a1)
      = Inr ()" by simp
  from desactivar_productos_filter [OF this]
  have "snd (subcategoria_update_inactivo rechaza tx s a) =
        escribir tx (apagar_productos (ids_activos ?Q (confirmado ?a1))) ?a1"
    using eq by simp
  moreover have "ids_activos ?Q (confirmado ?a1) = ids_activos ?Q (confirmado a)"
    by (rule ids_activos_cong) (rule productos_confirmado_escribir, simp)
  ultimately show ?thesis by (simp add: escribir_escribir)
qed

lemma ids_activos_union:
  "ids_activos Q d \<union> ids_activos R d = ids_activos (\<lambda>p. Q p \<or> R p) d"
  by (auto simp: ids_activos_def)

lemma apagar_cuatro:
  "apagar_productos X \<circ> apagar_subcategorias U \<circ> (apagar_productos Y \<circ> apagar_subcategorias V) =
   apagar_productos (X \<union> Y) \<circ> apagar_subcategorias (U \<union> V)"
  by (rule ext)
    (simp add: apagar_conmutan apagar_productos_union apagar_subcategorias_union)

lemma desactivar_subcategorias_ok:
  "fst (desactivar_subcategorias rechaza tx ss a) = Inr () \<Longrightarrow>
   snd (desactivar_subcategorias rechaza tx ss a) =
     escribir tx (apagar_productos
                    (ids_activos (\<lambda>p. prod_subcategoriaId p \<in> subs_activas ss) (confirmado a)) \<circ>
                  apagar_subcategorias (subs_activas ss)) a"
proof (induction ss arbitrary: a)
  case Nil
  have "ids_activos (\<lambda>p. prod_subcategoriaId p \<in> subs_activas []) (confirmado a) = {}"
    by (simp add: ids_activos_def subs_activas_def)
  then show ?case by (simp add: subs_activas_def comp_def escribir_id)
next
  case (Cons s ss)
  show ?case
  proof (cases "sub_activo s")
    case False
    then have u: "subs_activas (s # ss) = subs_activas ss"
      by (auto simp: subs_activas_def)
    from False Cons.prems have "fst (desactivar_subcategorias rechaza tx ss a) = Inr ()"
      by (simp add: subcategoria_update_inactivo_inactiva)
    from Cons.IH [OF this] False show ?thesis
      by (simp add: subcategoria_update_inactivo_inactiva u)
  next
    case True
    let ?Ps = "ids_activos (\<lambda>p. prod_subcategoriaId p = sub_id s) (confirmado a)"
    let ?f = "apagar_productos ?Ps \<circ> apagar_subcategorias {sub_id s}"
    let ?a1 = "escribir tx ?f a"
    let ?Q = "\<lambda>p. prod_subcategoriaId p \<in> subs_activas ss"
    have u: "subs_activas (s # ss) = subs_activas ss \<union> {sub_id s}"
      using True by (auto simp: subs_activas_def)
    from Cons.prems have ok1: "fst (subcategoria_update_inactivo rechaza tx s a) = Inr ()"
      by (simp split: prod.splits sum.splits)
    from subcategoria_update_inactivo_ok [OF True ok1] ok1
    have step: "subcategoria_update_inactivo rechaza tx s a = (Inr (), ?a1)"
      by (simp add: prod_eq_iff)
    with Cons.prems have ok2: "fst (desactivar_subcategorias rechaza tx ss ?a1) = Inr ()"
      by simp
    have "snd (desactivar_subcategorias rechaza tx (s # ss) a) =
          snd (desactivar_subcategorias rechaza tx ss ?a1)"
      using step by simp
    also have "\<dots> = escribir tx (apagar_productos (ids_activos ?Q (confirmado ?a1)) \<circ>
                                  apagar_subcategorias (subs_activas ss)) ?a1"
      by (rule Cons.IH [OF ok2])
    also have "\<dots> = escribir tx (apagar_productos (ids_activos ?Q (confirmado ?a1) \<union> ?Ps) \<circ>
                                  apagar_subcategorias (subs_activas ss \<union> {sub_id s})) a"
      by (simp only: escribir_escribir apagar_cuatro)
    also have "ids_activos ?Q (confirmado ?a1) \<union> ?Ps = ids_activos ?Q (confirmado a) \<union> ?Ps"
      by (rule ids_activos_tras_escribir) (simp_all add: productos_apagar_productos)
    also have "ids_activos ?Q (confirmado a) \<union> ?Ps =
               ids_activos (\<lambda>p. prod_subcategoriaId p \<in> subs_activas (s # ss)) (confirmado a)"
      by (auto simp: ids_activos_def u)
    finally show ?thesis by (simp only: u)
  qed
qed


lemma categoria_update_activo_ok:
  assumes act: "cat_activo c"
    and ok: "fst (categoria_update_activo rechaza tx c False a) = Inr ()"
  shows "snd (categoria_update_activo rechaza tx c False a) =
     escribir tx
       (apagar_productos
          (ids_activos (\<lambda>p. prod_categoriaId p = cat_id c \<or>
                            prod_subcategoriaId p \<in>
                              subs_activas (filter (\<lambda>s. sub_categoriaId s = cat_id c)
                                              (subcategorias (confirmado a))))
             (confirmado a)) \<circ>
        apagar_subcategorias
          (subs_activas (filter (\<lambda>s. sub_categoriaId s = cat_id c)
                           (subcategorias (confirmado a)))) \<circ>
        fila_categoria (cat_id c) False) a"
proof -
  let ?k = "cat_id c"
  let ?a0 = "escribir tx (fila_categoria ?k False) a"
  let ?ss = "filter (\<lambda>s. sub_categoriaId s = ?k) (subcategorias (confirmado a))"
  let ?U = "subs_activas ?ss"
  let ?QS = "\<lambda>p. prod_subcategoriaId p \<in> ?U"
  let ?QC = "\<lambda>p. prod_categoriaId p = ?k"
  let ?P1 = "ids_activos ?QS (confirmado a)"
  let ?g = "apagar_productos ?P1 \<circ> apagar_subcategorias ?U"
  let ?a1 = "escribir tx ?g ?a0"
  from act ok have nr: "\<not> rechaza TCategorias ?k"
    by (auto simp: categoria_update_activo_def split: if_splits)
  have ss0: "subcategorias (confirmado ?a0) = subcategorias (confirmado a)"
    by (rule subcategorias_confirmado_escribir) simp
  have pp0: "productos (confirmado ?a0) = productos (confirmado a)"
    by (rule productos_confirmado_escribir) simp
  have eq: "categoria_update_activo rechaza tx c False a =
      (case desactivar_subcategorias rechaza tx ?ss ?a0 of
         (Inl e, a1) \<Rightarrow> (Inl e, a1)
       | (Inr u, a1) \<Rightarrow>
           desactivar_productos rechaza tx (filter ?QC (productos (confirmado a1))) a1)"
    using act nr
    by (simp add: categoria_update_activo_def categoria_afterUpdate_def ss0
        split: prod.splits sum.splits)
  with ok have ok1: "fst (desactivar_subcategorias rechaza tx ?ss ?a0) = Inr ()"
    by (simp split: prod.splits sum.splits)
  have "snd (desactivar_subcategorias rechaza tx ?ss ?a0) =
        escribir tx (apagar_productos (ids_activos ?QS (confirmado ?a0)) \<circ>
                     apagar_subcategorias ?U) ?a0"
    by (rule desactivar_subcategorias_ok [OF ok1])
  moreover have "ids_activos ?QS (confirmado ?a0) = ?P1"
    by (rule ids_activos_cong) (rule pp0)
  ultimately have step1: "desactivar_subcategorias rechaza tx ?ss ?a0 = (Inr (), ?a1)"
    using ok1 by (simp add: prod_eq_iff)
  have eq2: "categoria_update_activo rechaza tx c False a =
      desactivar_productos rechaza tx (filter ?QC (productos (confirmado ?a1))) ?a1"
    by (simp only: eq step1 prod.case sum.case)
  with ok have "fst (desactivar_productos rechaza tx (filter ?QC (productos (confirmado ?a1))) ?a1)
      = Inr ()" by simp
  from desactivar_productos_filter [OF this] eq2
  have "snd (categoria_update_activo rechaza tx c False a) =
        escribir tx (apagar_productos (ids_activos ?QC (confirmado ?a1))) ?a1" by simp
  also have "\<dots> = escribir tx (apagar_productos (ids_activos ?QC (confirmado ?a1) \<union> ?P1) \<circ>
                                apagar_subcategorias ?U \<circ> fila_categoria ?k False) a"
    by (simp add: escribir_escribir comp_def apagar_productos_union)
  also have "ids_activos ?QC (confirmado ?a1) \<union> ?P1 = ids_activos ?QC (confirmado ?a0) \<union> ?P1"
    by (rule ids_activos_tras_escribir) (simp_all add: productos_apagar_productos)
  also have "ids_activos ?QC (confirmado ?a0) = ids_activos ?QC (confirmado a)"
    by (rule ids_activos_cong) (rule pp0)
  also have "ids_activos ?QC (confirmado a) \<union> ?P1 =
             ids_activos (\<lambda>p. prod_categoriaId p = ?k \<or> prod_subcategoriaId p \<in> ?U) (confirmado a)"
    by (simp only: ids_activos_union)
  finally show ?thesis .
qed

lemma cascada_apagar:
  assumes pk: "claves_unicas d"
  shows "(apagar_productos
          (ids_activos (\<lambda>p. prod_categoriaId p = k \<or>
                            prod_subcategoriaId p \<in>
                              subs_activas (filter (\<lambda>s. sub_categoriaId s = k) (subcategorias d))) d) \<circ>
        apagar_subcategorias (subs_activas (filter (\<lambda>s. sub_categoriaId s = k) (subcategorias d))) \<circ>
        fila_categoria k False) d = cascada k d"
proof -
  let ?U = "subs_activas (filter (\<lambda>s. sub_categoriaId s = k) (subcategorias d))"
  let ?P = "ids_activos (\<lambda>p. prod_categoriaId p = k \<or> prod_subcategoriaId p \<in> ?U) d"
  from pk have ds: "inj_on sub_id (set (subcategorias d))"
    and dp: "inj_on prod_id (set (productos d))"
    by (simp_all add: claves_unicas_def distinct_map)
  have s: "map (\<lambda>r. if sub_id r \<in> ?U then r\<lparr>sub_activo := False\<rparr> else r) (subcategorias d) =
           map (\<lambda>r. if sub_categoriaId r = k then r\<lparr>sub_activo := False\<rparr> else r) (subcategorias d)"
  proof (rule map_cong [OF refl])
    fix r assume r: "r \<in> set (subcategorias d)"
    have "sub_id r \<in> ?U \<longleftrightarrow> sub_categoriaId r = k \<and> sub_activo r"
      using r ds by (auto simp: subs_activas_def dest: inj_onD)
    then show "(if sub_id r \<in> ?U then r\<lparr>sub_activo := False\<rparr> else r) =
               (if sub_categoriaId r = k then r\<lparr>sub_activo := False\<rparr> else r)"
      by auto
  qed
  have u: "\<And>x. x \<in> ?U \<longleftrightarrow>
      list_ex (\<lambda>s. sub_id s = x \<and> sub_categoriaId s = k \<and> sub_activo s) (subcategorias d)"
    by (auto simp: subs_activas_def list_ex_iff)
  have p: "map (\<lambda>r. if prod_id r \<in> ?P then r\<lparr>prod_activo := False\<rparr> else r) (productos d) =
           map (\<lambda>r. if prod_categoriaId r = k \<or>
                       list_ex (\<lambda>s. sub_id s = prod_subcategoriaId r \<and> sub_categoriaId s = k \<and>
                                    sub_activo s) (subcategorias d)
                    then r\<lparr>prod_activo := False\<rparr> else r) (productos d)"
  proof (rule map_cong [OF refl])
    fix r assume r: "r \<in> set (productos d)"
    have "prod_id r \<in> ?P \<longleftrightarrow>
          (prod_categoriaId r = k \<or> prod_subcategoriaId r \<in> ?U) \<and> prod_activo r"
      using r dp by (auto simp: ids_activos_def dest: inj_onD)
    then show "(if prod_id r \<in> ?P then r\<lparr>prod_activo := False\<rparr> else r) =
               (if prod_categoriaId r = k \<or>
                   list_ex (\<lambda>s. sub_id s = prod_subcategoriaId r \<and> sub_categoriaId s = k \<and>
                                sub_activo s) (subcategorias d)
                then r\<lparr>prod_activo := False\<rparr> else r)"
      by (auto simp: u)
  qed
  show ?thesis
    by (simp add: cascada_def apagar_productos_def apagar_subcategorias_def fila_categoria_def s p)
qed


lemma desactivar_productos_confirmado:
  "confirmado (snd (desactivar_productos rechaza (Some t) ps a)) = confirmado a"
  by (induction ps arbitrary: a)
    (simp_all add: producto_update_inactivo_def confirmado_escribir_Some)

lemma subcategoria_update_inactivo_confirmado:
  "confirmado (snd (subcategoria_update_inactivo rechaza (Some t) s a)) = confirmado a"
  by (simp add: subcategoria_update_inactivo_def subcategoria_afterUpdate_def
      desactivar_productos_confirmado confirmado_escribir_Some)

lemma desactivar_subcategorias_confirmado:
  "confirmado (snd (desactivar_subcategorias rechaza (Some t) ss a)) = confirmado a"
proof (induction ss arbitrary: a)
  case Nil
  then show ?case by simp
next
  case (Cons s ss)
  obtain r a1 where e: "subcategoria_update_inactivo rechaza (Some t) s a = (r, a1)"
    by (cases "subcategoria_update_inactivo rechaza (Some t) s a")
  with subcategoria_update_inactivo_confirmado [of rechaza t s a]
  have c: "confirmado a1 = confirmado a" by simp
  show ?case
  proof (cases r)
    case (Inl x)
    with e c show ?thesis by simp
  next
    case (Inr u)
    with e c Cons.IH [of a1] show ?thesis by simp
  qed
qed

lemma categoria_afterUpdate_confirmado:
  "confirmado (snd (categoria_afterUpdate rechaza (Some t) ch c a)) = confirmado a"
proof -
  let ?ss = "filter (\<lambda>s. sub_categoriaId s = cat_id c) (subcategorias (confirmado a))"
  obtain r a1 where e: "desactivar_subcategorias rechaza (Some t) ?ss a = (r, a1)"
    by (cases "desactivar_subcategorias rechaza (Some t) ?ss a")
  with desactivar_subcategorias_confirmado [of rechaza t ?ss a]
  have c1: "confirmado a1 = confirmado a" by simp
  show ?thesis
    using e c1
    by (cases r) (simp_all add: categoria_afterUpdate_def desactivar_productos_confirmado)
qed

lemma categoria_update_activo_confirmado:
  "confirmado (snd (categoria_update_activo rechaza (Some t) c v a)) = confirmado a"
  by (simp add: categoria_update_activo_def categoria_afterUpdate_confirmado
      confirmado_escribir_Some)

lemma desactivar_productos_sin_fallas:
  "fst (desactivar_productos sin_fallas tx ps a) = Inr ()"
  by (induction ps arbitrary: a) (simp_all add: producto_update_inactivo_def sin_fallas_def)

lemma subcategoria_update_inactivo_sin_fallas:
  "fst (subcategoria_update_inactivo sin_fallas tx s a) = Inr ()"
  by (simp add: subcategoria_update_inactivo_def subcategoria_afterUpdate_def
      desactivar_productos_sin_fallas sin_fallas_def)

lemma desactivar_subcategorias_sin_fallas:
  "fst (desactivar_subcategorias sin_fallas tx ss a) = Inr ()"
proof (induction ss arbitrary: a)
  case Nil
  then show ?case by simp
next
  case (Cons s ss)
  obtain r a1 where e: "subcategoria_update_inactivo sin_fallas tx s a = (r, a1)"
    by (cases "subcategoria_update_inactivo sin_fallas tx s a")
  with subcategoria_update_inactivo_sin_fallas [of tx s a] have "r = Inr ()" by simp
  with e Cons.IH [of a1] show ?case by simp
qed

lemma categoria_afterUpdate_sin_fallas:
  "fst (categoria_afterUpdate sin_fallas tx ch c a) = Inr ()"
proof -
  let ?ss = "filter (\<lambda>s. sub_categoriaId s = cat_id c) (subcategorias (confirmado a))"
  obtain r a1 where e: "desactivar_subcategorias sin_fallas tx ?ss a = (r, a1)"
    by (cases "desactivar_subcategorias sin_fallas tx ?ss a")
  with desactivar_subcategorias_sin_fallas [of tx ?ss a] have "r = Inr ()" by simp
  with e show ?thesis
    by (simp add: categoria_afterUpdate_def desactivar_productos_sin_fallas)
qed

lemma categoria_update_activo_sin_fallas:
  "fst (categoria_update_activo sin_fallas tx c v a) = Inr ()"
  by (simp add: categoria_update_activo_def categoria_afterUpdate_sin_fallas sin_fallas_def)

text \<open>
  C6, as the code has it.  Let the primary keys be unique, the category active, and the
  transaction of the triggering update, if there is one, just begun: it has written
  nothing yet and sees the committed rows.  If the update of
  the category to \<open>activo = false\<close> succeeds, the rows it wrote are exactly the cascade:
  the category, all its subcategories and all products of the category or of one of its
  active subcategories are inactive and nothing else changed.  Every write of the hooks
  goes to the transaction of the triggering update: with one, the committed rows are
  the same after the call, failed or not, a rollback gives back the store as it was
  before the call, and a commit after a success publishes the cascade.  A store that
  rejects no update makes the call succeed.
\<close>

theorem desactivar_categoria_cascada:
  assumes pk: "claves_unicas (confirmado a)"
    and act: "cat_activo c"
    and ini: "vista tx a = confirmado a"
  shows "(fst (categoria_update_activo rechaza tx c False a) = Inr () \<longrightarrow>
            vista tx (snd (categoria_update_activo rechaza tx c False a)) =
              cascada (cat_id c) (confirmado a)) \<and>
         (tx \<noteq> None \<longrightarrow>
            confirmado (snd (categoria_update_activo rechaza tx c False a)) = confirmado a \<and>
            rollback (snd (categoria_update_activo rechaza tx c False a)) = a \<and>
            (fst (categoria_update_activo rechaza tx c False a) = Inr () \<longrightarrow>
               confirmado (commit (snd (categoria_update_activo rechaza tx c False a))) =
                 cascada (cat_id c) (confirmado a))) \<and>
         fst (categoria_update_activo sin_fallas tx c False a) = Inr ()"
proof -
  let ?r = "categoria_update_activo rechaza tx c False a"
  have exito: "vista tx (snd ?r) = cascada (cat_id c) (confirmado a)" if ok: "fst ?r = Inr ()"
    by (simp only: categoria_update_activo_ok [OF act ok] vista_escribir ini
        cascada_apagar [OF pk])
  have con: "confirmado (snd ?r) = confirmado a \<and> rollback (snd ?r) = a \<and>
      (fst ?r = Inr () \<longrightarrow> confirmado (commit (snd ?r)) = cascada (cat_id c) (confirmado a))"
    if "tx \<noteq> None"
  proof -
    from that obtain t where t: "tx = Some t" by auto
    then have c: "confirmado (snd ?r) = confirmado a"
      by (simp add: categoria_update_activo_confirmado)
    from ini t have e: "en_transaccion a = confirmado a"
      by (simp add: vista_def)
    have "rollback (snd ?r) = a"
      using c e by (cases a; cases "snd ?r") (simp add: rollback_def)
    moreover have "confirmado (commit (snd ?r)) = vista tx (snd ?r)"
      using t by (simp add: commit_def vista_def)
    ultimately show ?thesis using c exito by simp
  qed
  from exito con categoria_update_activo_sin_fallas [of tx c False a] show ?thesis
    by blast
qed

theorem desactivar_categoria_cascada_witness:
  "claves_unicas (confirmado almacen_catalogo) \<and> cat_activo categoria_1 \<and>
   vista (Some 0) almacen_catalogo = confirmado almacen_catalogo \<and>
   fst (categoria_update_activo sin_fallas (Some 0) categoria_1 False almacen_catalogo) = Inr () \<and>
   map sub_activo (subcategorias (vista (Some 0)
     (snd (categoria_update_activo sin_fallas (Some 0) categoria_1 False almacen_catalogo)))) =
     [False, False, True] \<and>
   map prod_activo (productos (vista (Some 0)
     (snd (categoria_update_activo sin_fallas (Some 0) categoria_1 False almacen_catalogo)))) =
     [False, False, True] \<and>
   confirmado (snd (categoria_update_activo sin_fallas (Some 0) categoria_1 False almacen_catalogo)) =
     catalogo \<and>
   rollback (snd (categoria_update_activo sin_fallas (Some 0) categoria_1 False almacen_catalogo)) =
     almacen_catalogo"
proof -
  have pk: "claves_unicas (confirmado almacen_catalogo)"
    by (simp add: claves_unicas_def almacen_catalogo_def catalogo_def categoria_1_def
        producto_p_def)
  have act: "cat_activo categoria_1"
    by (simp add: categoria_1_def)
  have ini: "vista (Some 0) almacen_catalogo = confirmado almacen_catalogo"
    by (simp add: vista_def almacen_catalogo_def)
  have c: "cascada (cat_id categoria_1) (confirmado almacen_catalogo) =
      catalogo\<lparr>categorias := map (\<lambda>r. if cat_id r = 1 then r\<lparr>cat_activo := False\<rparr> else r)
                                 (categorias catalogo),
               subcategorias := map (\<lambda>r. if sub_id r = 3 then r else r\<lparr>sub_activo := False\<rparr>)
                                 (subcategorias catalogo),
               productos := map (\<lambda>r. if prod_id r = 3 then r else r\<lparr>prod_activo := False\<rparr>)
                                 (productos catalogo)\<rparr>"
    by (simp add: cascada_def almacen_catalogo_def catalogo_def categoria_1_def producto_p_def)
  from desactivar_categoria_cascada [OF pk act ini, of sin_fallas] pk act ini c
  show ?thesis
    by (simp add: almacen_catalogo_def catalogo_def producto_p_def)
qed

text \<open>
  The hypothesis on the transaction is needed: the hooks read with \<open>findAll\<close> outside
  the transaction, so rows that the transaction wrote before the update are not seen.
  Here the transaction holds a subcategory and a product of category 1 that are not
  committed; the update succeeds and they are still active in what a commit publishes.
\<close>

lemma desactivar_categoria_no_ve_la_transaccion:
  "fst (categoria_update_activo sin_fallas (Some 0) categoria_1 False almacen_con_escrituras) =
     Inr () \<and>
   map sub_activo (subcategorias (confirmado (commit (snd
     (categoria_update_activo sin_fallas (Some 0) categoria_1 False almacen_con_escrituras))))) =
     [False, False, True, True] \<and>
   map prod_activo (productos (confirmado (commit (snd
     (categoria_update_activo sin_fallas (Some 0) categoria_1 False almacen_con_escrituras))))) =
     [False, False, True, True]"
  by (simp add: categoria_update_activo_def categoria_afterUpdate_def
      subcategoria_update_inactivo_def subcategoria_afterUpdate_def producto_update_inactivo_def
      escribir_def commit_def fila_categoria_def fila_subcategoria_def fila_producto_def
      sin_fallas_def almacen_con_escrituras_def catalogo_def categoria_1_def producto_p_def)

text \<open>
  C6 as stated fails when the triggering update carries no transaction: the store
  rejects the update of subcategory 2, the call fails, and the category, subcategory 1
  and product 1 are committed as inactive.
\<close>

theorem desactivar_categoria_sin_transaccion:
  "fst (categoria_update_activo rechaza_sub_2 None categoria_1 False almacen_catalogo) =
     Inl DatabaseError \<and>
   map cat_activo (categorias (confirmado
     (snd (categoria_update_activo rechaza_sub_2 None categoria_1 False almacen_catalogo)))) =
     [False, True] \<and>
   map sub_activo (subcategorias (confirmado
     (snd (categoria_update_activo rechaza_sub_2 None categoria_1 False almacen_catalogo)))) =
     [False, True, True] \<and>
   map prod_activo (productos (confirmado
     (snd (categoria_update_activo rechaza_sub_2 None categoria_1 False almacen_catalogo)))) =
     [False, True, True]"
  by (simp add: categoria_update_activo_def categoria_afterUpdate_def
      subcategoria_update_inactivo_def subcategoria_afterUpdate_def producto_update_inactivo_def
      escribir_def fila_categoria_def fila_subcategoria_def fila_producto_def rechaza_sub_2_def
      almacen_catalogo_def catalogo_def categoria_1_def producto_p_def)

section \<open>Properties of the checkout\<close>

lemma checkout_lineas_lanza:
  "ls \<noteq> [] \<Longrightarrow> fst (checkout_lineas d ls) \<noteq> Inr ()"
  by (cases ls)
    (auto simp: aumentarStock_def hayStock_def Let_def split: option.splits prod.splits)

text \<open>
  With the stock methods of the repository no checkout succeeds: an empty cart is
  rejected, and the first line of any other cart is stopped by the decrement, which
  throws, or by its missing product.
\<close>

lemma checkout_nunca_crea_pedido: "fst (checkout d k u sa cp nt) \<noteq> Inr ()"
proof (cases "filter (\<lambda>c. car_usuarioId c = u) (carritos d) = []")
  case True
  then show ?thesis by (simp add: checkout_def)
next
  case False
  from checkout_lineas_lanza [OF False, of d] False show ?thesis
    by (auto simp: checkout_def Let_def split: prod.splits sum.splits)
qed


end
